theory Spec2Isabelle
  imports Complex_Main
begin

section \<open>JavaScript values\<close>

text \<open>
  The driver (\<^verbatim>\<open>src/pglite-driver.ts\<close>) handles values whose static type is
  \<^verbatim>\<open>any\<close> or \<^verbatim>\<open>unknown\<close>: serializer inputs, engine results, thrown errors.
  They are modelled as untyped JavaScript values. A number is an IEEE double: a finite
  value (a rational here), or one of the special values; \<open>Finite 0\<close> is \<^verbatim>\<open>+0\<close>.
\<close>

datatype jsnum = Finite rat | NegZero | NaN | PosInfinity | NegInfinity

datatype jsval =
    JUndefined
  | JNull
  | JBool bool
  | JNum jsnum
  | JStr string
  | JArr "jsval list"
  | JObj "(string \<times> jsval) list"
  | JError string

text \<open>Strict equality \<^verbatim>\<open>===\<close> on numbers: \<^verbatim>\<open>NaN\<close> equals nothing, \<^verbatim>\<open>-0 === 0\<close>.\<close>

definition is_zero :: "jsnum \<Rightarrow> bool" where
  "is_zero x = (x = Finite 0 \<or> x = NegZero)"

definition num_strict_eq :: "jsnum \<Rightarrow> jsnum \<Rightarrow> bool" where
  "num_strict_eq x y = (x \<noteq> NaN \<and> y \<noteq> NaN \<and> (x = y \<or> (is_zero x \<and> is_zero y)))"

text \<open>
  \<^verbatim>\<open>val === lit\<close> where \<^verbatim>\<open>lit\<close> is a primitive literal (string, boolean or number), the
  only use the driver makes of \<^verbatim>\<open>===\<close>. No type conversion takes place, and an object or
  array is never strictly equal to a primitive.
\<close>

fun strict_eq :: "jsval \<Rightarrow> jsval \<Rightarrow> bool" where
  "strict_eq (JStr a) (JStr b) = (a = b)"
| "strict_eq (JBool a) (JBool b) = (a = b)"
| "strict_eq (JNum a) (JNum b) = num_strict_eq a b"
| "strict_eq _ _ = False"

text \<open>\<^verbatim>\<open>v?.k\<close>: property access with optional chaining; a missing property reads as
  \<^verbatim>\<open>undefined\<close>, as does any property of \<^verbatim>\<open>undefined\<close> or \<^verbatim>\<open>null\<close>.\<close>

definition get_prop :: "jsval \<Rightarrow> string \<Rightarrow> jsval" where
  "get_prop v k =
     (case v of
        JObj ps \<Rightarrow> (case map_of ps k of Some x \<Rightarrow> x | None \<Rightarrow> JUndefined)
      | _ \<Rightarrow> JUndefined)"

text \<open>\<^verbatim>\<open>v ?? d\<close>: nullish coalescing; only \<^verbatim>\<open>undefined\<close> and \<^verbatim>\<open>null\<close> give way to the
  default (\<^verbatim>\<open>0\<close>, \<^verbatim>\<open>''\<close> and \<^verbatim>\<open>false\<close> do not).\<close>

definition nullish :: "jsval \<Rightarrow> bool" where
  "nullish v = (v = JUndefined \<or> v = JNull)"

definition coalesce :: "jsval \<Rightarrow> jsval \<Rightarrow> jsval" where
  "coalesce v d = (if nullish v then d else v)"

section \<open>The boolean serializer and the engine options\<close>

text \<open>The function registered under \<^verbatim>\<open>types.BOOL\<close> (lines 47-55).\<close>

definition bool_serializer :: "jsval \<Rightarrow> jsval" where
  "bool_serializer val =
     (if strict_eq val (JStr ''true'') then JStr ''TRUE''
      else if strict_eq val (JBool True) then JStr ''TRUE''
      else if strict_eq val (JStr ''false'') then JStr ''FALSE''
      else if strict_eq val (JBool False) then JStr ''FALSE''
      else if strict_eq val (JNum (Finite 1)) then JStr ''TRUE''
      else if strict_eq val (JNum (Finite 0)) then JStr ''FALSE''
      else val)"

text \<open>
  \<^verbatim>\<open>types.BOOL\<close> is a constant of the engine package (the PostgreSQL type identifier of
  \<^verbatim>\<open>boolean\<close>); no theorem depends on its value.
\<close>

definition types_BOOL :: nat where
  "types_BOOL = 16"

type_synonym serializer = "jsval \<Rightarrow> jsval"

text \<open>
  \<^verbatim>\<open>PGliteOptions\<close>: the optional \<^verbatim>\<open>serializers\<close> field, a table from type identifier to
  serializer, and all the other fields of the options object, which the driver passes on
  untouched.
\<close>

record PGliteOptions =
  serializers :: "(nat \<rightharpoonup> serializer) option"
  others :: "(string \<times> jsval) list"

text \<open>\<^verbatim>\<open>...pgliteOptions?.serializers\<close>: spreading \<^verbatim>\<open>undefined\<close> adds no entry.\<close>

definition spread_serializers :: "PGliteOptions option \<Rightarrow> (nat \<rightharpoonup> serializer)" where
  "spread_serializers pgliteOptions =
     (case pgliteOptions of
        None \<Rightarrow> Map.empty
      | Some opts \<Rightarrow> (case serializers opts of None \<Rightarrow> Map.empty | Some m \<Rightarrow> m))"

text \<open>
  The object literal passed to \<^verbatim>\<open>PGlite.create\<close> (lines 44-58): the caller's options
  spread first, then the \<^verbatim>\<open>serializers\<close> key, whose value is the built-in entry
  followed by the spread of the caller's table (later keys win).
\<close>

definition create_options :: "PGliteOptions option \<Rightarrow> PGliteOptions" where
  "create_options pgliteOptions =
     \<lparr> serializers =
         Some ([types_BOOL \<mapsto> bool_serializer] ++ spread_serializers pgliteOptions),
       others = (case pgliteOptions of None \<Rightarrow> [] | Some opts \<Rightarrow> others opts) \<rparr>"

section \<open>Collaborators, handle state and the call log\<close>

text \<open>An engine instance is known by its identity; a callback by the function's identity.\<close>

type_synonym PGlite = nat
type_synonym callback = nat

text \<open>
  The top-level statements of a parse result. A node of the parser's tree is an object
  with exactly one key, the node kind; the driver looks only at the kind.
\<close>

datatype node = UpdateStmt | DeleteStmt | InsertStmt | SelectStmt | OtherStmt string

record RawStmt =
  stmt :: node

record ParseResult =
  stmts :: "RawStmt list"

text \<open>
  The embedded engine and the SQL parser are outside the repository. They are parameters
  of the model: each engine operation reads and updates the state \<open>'w\<close> of the outside
  world and either returns (\<open>Inr\<close>) or throws (\<open>Inl\<close>, with the thrown value).
  A callback passed to \<^verbatim>\<open>query\<close> is code of the caller as well: invoked with
  \<^verbatim>\<open>(error, results)\<close> it returns normally (\<open>None\<close>) or throws a value.
\<close>

record 'w collab =
  PGlite_create :: "PGliteOptions \<Rightarrow> 'w \<Rightarrow> (jsval + PGlite) \<times> 'w"
  PGlite_query :: "PGlite \<Rightarrow> string \<Rightarrow> jsval list option \<Rightarrow> 'w \<Rightarrow> (jsval + jsval) \<times> 'w"
  PGlite_exec :: "PGlite \<Rightarrow> string \<Rightarrow> 'w \<Rightarrow> (jsval + jsval list) \<times> 'w"
  PGlite_close :: "PGlite \<Rightarrow> 'w \<Rightarrow> (jsval + unit) \<times> 'w"
  parseQuerySync :: "string \<Rightarrow> jsval + ParseResult"
  callback_throws :: "callback \<Rightarrow> jsval \<Rightarrow> jsval \<Rightarrow> jsval option"

text \<open>
  The second and third arguments of the callbacks of \<^verbatim>\<open>connect\<close>: the handle itself or
  \<^verbatim>\<open>null\<close>, and the release hook, always \<^verbatim>\<open>noop\<close>.
\<close>

datatype client = This
datatype release = noop

text \<open>
  Every call to a collaborator and every invocation of a callback is logged, with its
  arguments (for \<open>Create\<close> also with what the promise of the call settles to). No
  callback calls back into the handle; the callbacks of \<^verbatim>\<open>connect\<close> and \<^verbatim>\<open>end\<close> are
  taken to return normally.
\<close>

datatype event =
    Create PGliteOptions "jsval + PGlite"
  | Parse string
  | Query PGlite string "jsval list option"
  | Exec PGlite string
  | Close PGlite
  | ConnectCb callback jsval "client option" release
  | QueryCb callback jsval jsval
  | EndCb callback jsval

text \<open>The handle: the private field \<^verbatim>\<open>connection\<close> (line 35), with the world and the log.\<close>

record 'w pool =
  connection :: "PGlite option"
  world :: 'w
  trace :: "event list"

definition emit :: "event \<Rightarrow> 'w pool \<Rightarrow> 'w pool" where
  "emit e s = s\<lparr>trace := trace s @ [e]\<rparr>"

text \<open>
  \<^verbatim>\<open>cb?.(error, results)\<close>: nothing happens when the callback is \<^verbatim>\<open>undefined\<close>;
  otherwise the callback is invoked, and what it throws, if anything, propagates.
\<close>

definition throws_opt :: "'w collab \<Rightarrow> callback option \<Rightarrow> jsval \<Rightarrow> jsval \<Rightarrow> jsval option" where
  "throws_opt C cb e r = (case cb of None \<Rightarrow> None | Some f \<Rightarrow> callback_throws C f e r)"

definition call_opt ::
  "'w collab \<Rightarrow> callback option \<Rightarrow> jsval \<Rightarrow> jsval \<Rightarrow> 'w pool \<Rightarrow> jsval option \<times> 'w pool" where
  "call_opt C cb e r s =
     (throws_opt C cb e r, (case cb of None \<Rightarrow> s | Some f \<Rightarrow> emit (QueryCb f e r) s))"

text \<open>
  \<^verbatim>\<open>catch (error) { cb?.(error, null); throw error; }\<close> (lines 91-94 and 111-114): the
  promise rejects with the caught value, or with what the callback throws in its turn.
\<close>

definition catch_clause ::
  "'w collab \<Rightarrow> callback option \<Rightarrow> jsval \<Rightarrow> 'w pool \<Rightarrow> (jsval + jsval) \<times> 'w pool" where
  "catch_clause C cb error s =
     (case call_opt C cb error JNull s of
        (None, s') \<Rightarrow> (Inl error, s')
      | (Some thrown, s') \<Rightarrow> (Inl thrown, s'))"

section \<open>connect, query, end\<close>

text \<open>
  \<^verbatim>\<open>connect\<close> (lines 37-63) is an \<^verbatim>\<open>async\<close> method. A call runs at once up to the
  \<^verbatim>\<open>await\<close> of line 44: it tests \<^verbatim>\<open>this.connection\<close> and, finding none, calls
  \<^verbatim>\<open>PGlite.create\<close>; there it is suspended until the promise of the creation settles.
  Other calls on the handle may run in between.
\<close>

datatype pending_connect = AwaitingCreate callback "jsval + PGlite"

definition connect_start ::
  "'w collab \<Rightarrow> PGliteOptions option \<Rightarrow> callback \<Rightarrow> 'w pool \<Rightarrow> pending_connect option \<times> 'w pool" where
  "connect_start C pgliteOptions callback s =
     (case connection s of
        Some conn \<Rightarrow> (None, emit (ConnectCb callback JNull (Some This) noop) s)
      | None \<Rightarrow>
          (let cfg = create_options pgliteOptions in
           case PGlite_create C cfg (world s) of
             (r, w) \<Rightarrow> (Some (AwaitingCreate callback r), (emit (Create cfg r) s)\<lparr>world := w\<rparr>)))"

text \<open>
  The rest of the call, run when the promise has settled: the assignment to
  \<^verbatim>\<open>this.connection\<close> and the callback, or the \<^verbatim>\<open>catch\<close> clause.
\<close>

definition connect_resume :: "pending_connect \<Rightarrow> 'w pool \<Rightarrow> 'w pool" where
  "connect_resume p s =
     (case p of
        AwaitingCreate callback (Inr inst) \<Rightarrow>
          emit (ConnectCb callback JNull (Some This) noop) (s\<lparr>connection := Some inst\<rparr>)
      | AwaitingCreate callback (Inl error) \<Rightarrow>
          emit (ConnectCb callback error None noop) s)"

text \<open>
  A \<^verbatim>\<open>connect\<close> call that runs to completion before anything else happens on the
  handle, as when the caller waits for the callback before the next call.
\<close>

definition connect :: "'w collab \<Rightarrow> PGliteOptions option \<Rightarrow> callback \<Rightarrow> 'w pool \<Rightarrow> 'w pool" where
  "connect C pgliteOptions callback s =
     (case connect_start C pgliteOptions callback s of
        (None, s') \<Rightarrow> s'
      | (Some p, s') \<Rightarrow> connect_resume p s')"

text \<open>The second argument of \<^verbatim>\<open>query\<close>: absent, a parameter array, or a function.\<close>

datatype params_or_cb = PUndefined | PParams "jsval list" | PCb callback

definition not_initialized :: jsval where
  "not_initialized =
     JError ''expected connection to be initialized, did you call DataSource.initialize()?''"

text \<open>The \<^verbatim>\<open>if\<close>/\<^verbatim>\<open>else if\<close> chain of lines 98-107 on \<^verbatim>\<open>stmts?.[0]?.stmt\<close>.\<close>

definition command_of :: "ParseResult \<Rightarrow> jsval" where
  "command_of parsedSqlQuery =
     (case stmts parsedSqlQuery of
        [] \<Rightarrow> JUndefined
      | s0 # _ \<Rightarrow>
          if stmt s0 = UpdateStmt then JStr ''UPDATE''
          else if stmt s0 = DeleteStmt then JStr ''DELETE''
          else if stmt s0 = InsertStmt then JStr ''INSERT''
          else if stmt s0 = SelectStmt then JStr ''SELECT''
          else JUndefined)"

text \<open>
  Argument-shape resolution (lines 72-78): a function in second position is the callback
  and there are no parameters; otherwise the second argument is the parameter array and
  the third the callback.
\<close>

definition resolve_queryCb :: "params_or_cb \<Rightarrow> callback option \<Rightarrow> callback option" where
  "resolve_queryCb paramsOrCb cb = (case paramsOrCb of PCb f \<Rightarrow> Some f | _ \<Rightarrow> cb)"

definition resolve_queryParams :: "params_or_cb \<Rightarrow> jsval list option" where
  "resolve_queryParams paramsOrCb = (case paramsOrCb of PParams ps \<Rightarrow> Some ps | _ \<Rightarrow> None)"

text \<open>\<^verbatim>\<open>results[0]\<close>: reading past the end of an array gives \<^verbatim>\<open>undefined\<close>.\<close>

definition first_result :: "jsval list \<Rightarrow> jsval" where
  "first_result results = (case results of [] \<Rightarrow> JUndefined | r # _ \<Rightarrow> r)"

text \<open>
  \<^verbatim>\<open>query\<close> (lines 67-115), for a call during which no \<^verbatim>\<open>connect\<close> or \<^verbatim>\<open>end\<close>
  runs on the handle (the spec leaves that race to the caller). The result is the
  settlement of the returned promise: \<open>Inl\<close> a rejection, \<open>Inr\<close> a resolution. A throw
  outside the two \<^verbatim>\<open>try\<close> blocks (the guard of line 69, the parser) rejects the promise
  and runs no \<^verbatim>\<open>catch\<close> clause. Inside a \<^verbatim>\<open>try\<close> block the engine call and the
  callback invoked on success can throw, and either throw runs the \<^verbatim>\<open>catch\<close> clause.
  The multi-statement block calls \<^verbatim>\<open>cb\<close>, the single-statement block \<^verbatim>\<open>queryCb\<close>,
  as the source does. Loading the parser module (line 81) is taken to succeed.
\<close>

definition query ::
  "'w collab \<Rightarrow> string \<Rightarrow> params_or_cb \<Rightarrow> callback option \<Rightarrow> 'w pool \<Rightarrow> (jsval + jsval) \<times> 'w pool" where
  "query C sqlQuery paramsOrCb cb s =
     (case connection s of
        None \<Rightarrow> (Inl not_initialized, s)
      | Some conn \<Rightarrow>
          (let queryCb = resolve_queryCb paramsOrCb cb;
               queryParams = resolve_queryParams paramsOrCb;
               s1 = emit (Parse sqlQuery) s
           in case parseQuerySync C sqlQuery of
                Inl error \<Rightarrow> (Inl error, s1)
              | Inr parsedSqlQuery \<Rightarrow>
                  if length (stmts parsedSqlQuery) > 1 then
                    (case PGlite_exec C conn sqlQuery (world s1) of
                       (Inr results, w) \<Rightarrow>
                         (let res = first_result results in
                          case call_opt C cb JNull res ((emit (Exec conn sqlQuery) s1)\<lparr>world := w\<rparr>) of
                            (None, s2) \<Rightarrow>
                              (Inr (JObj [(''rows'', coalesce (get_prop res ''rows'') (JArr [])),
                                          (''fields'', coalesce (get_prop res ''fields'') (JArr [])),
                                          (''rowCount'', coalesce (get_prop res ''affectedRows'') JNull)]),
                               s2)
                          | (Some error, s2) \<Rightarrow> catch_clause C cb error s2)
                     | (Inl error, w) \<Rightarrow>
                         catch_clause C cb error ((emit (Exec conn sqlQuery) s1)\<lparr>world := w\<rparr>))
                  else
                    (case PGlite_query C conn sqlQuery queryParams (world s1) of
                       (Inr results, w) \<Rightarrow>
                         (let command = command_of parsedSqlQuery in
                          case call_opt C queryCb JNull results
                                 ((emit (Query conn sqlQuery queryParams) s1)\<lparr>world := w\<rparr>) of
                            (None, s2) \<Rightarrow>
                              (Inr (JObj [(''rows'', coalesce (get_prop results ''rows'') (JArr [])),
                                          (''fields'', coalesce (get_prop results ''fields'') (JArr [])),
                                          (''rowCount'', coalesce (get_prop results ''affectedRows'') JNull),
                                          (''command'', command)]),
                               s2)
                          | (Some error, s2) \<Rightarrow> catch_clause C queryCb error s2)
                     | (Inl error, w) \<Rightarrow>
                         catch_clause C queryCb error
                           ((emit (Query conn sqlQuery queryParams) s1)\<lparr>world := w\<rparr>))))"

text \<open>
  \<^verbatim>\<open>end\<close> (lines 117-125). The optional chain \<^verbatim>\<open>this.connection?.close().then(..).catch(..)\<close>
  short-circuits as a whole when \<^verbatim>\<open>connection\<close> is \<^verbatim>\<open>null\<close>: neither handler is attached.
\<close>

definition pool_end :: "'w collab \<Rightarrow> callback \<Rightarrow> 'w pool \<Rightarrow> 'w pool" where
  "pool_end C cb s =
     (case connection s of
        None \<Rightarrow> s
      | Some conn \<Rightarrow>
          (case PGlite_close C conn (world s) of
             (Inr u, w) \<Rightarrow>
               emit (EndCb cb JNull) ((emit (Close conn) s)\<lparr>connection := None, world := w\<rparr>)
           | (Inl error, w) \<Rightarrow>
               emit (EndCb cb error) ((emit (Close conn) s)\<lparr>world := w\<rparr>)))"

section \<open>Reading the call log\<close>

fun is_create :: "event \<Rightarrow> bool" where
  "is_create (Create cfg r) = True"
| "is_create _ = False"

fun is_created :: "event \<Rightarrow> bool" where
  "is_created (Create cfg (Inr inst)) = True"
| "is_created _ = False"

definition creation_calls :: "event list \<Rightarrow> nat" where
  "creation_calls evs = length (filter is_create evs)"

definition successful_creations :: "event list \<Rightarrow> nat" where
  "successful_creations evs = length (filter is_created evs)"

text \<open>The events logged between a state and a later one.\<close>

definition new_events :: "'w pool \<Rightarrow> 'w pool \<Rightarrow> event list" where
  "new_events s s' = drop (length (trace s)) (trace s')"

section \<open>Sample collaborators\<close>

text \<open>
  A parser and an engine for concrete runs. The world counts the instances created so
  far; a new instance takes the count as its identity. Callback 13 throws when it is
  handed a result; every other callback returns.
\<close>

definition select_result :: jsval where
  "select_result =
     JObj [(''rows'', JArr [JObj [(''test_value'', JNum (Finite 1))]]),
           (''fields'', JArr [JObj [(''name'', JStr ''test_value''), (''dataTypeID'', JNum (Finite 23))]]),
           (''affectedRows'', JNum (Finite 0))]"

definition ddl_result :: jsval where
  "ddl_result = JObj [(''rows'', JArr []), (''fields'', JArr [])]"

definition insert_result :: jsval where
  "insert_result =
     JObj [(''rows'', JArr []), (''fields'', JArr []), (''affectedRows'', JNum (Finite 1))]"

definition returning_result :: jsval where
  "returning_result =
     JObj [(''rows'', JArr [JObj [(''a'', JNum (Finite 1))]]),
           (''fields'', JArr [JObj [(''name'', JStr ''a''), (''dataTypeID'', JNum (Finite 23))]]),
           (''affectedRows'', JNum (Finite 1))]"

definition sample_parse :: "string \<Rightarrow> jsval + ParseResult" where
  "sample_parse sql =
     (if sql = ''SELECT 1 as test_value'' then Inr \<lparr>stmts = [\<lparr>stmt = SelectStmt\<rparr>]\<rparr>
      else if sql = ''DELETE FROM t'' then Inr \<lparr>stmts = [\<lparr>stmt = DeleteStmt\<rparr>]\<rparr>
      else if sql = ''CREATE TABLE t (a int); INSERT INTO t VALUES (1)''
        then Inr \<lparr>stmts = [\<lparr>stmt = OtherStmt ''CreateStmt''\<rparr>, \<lparr>stmt = InsertStmt\<rparr>]\<rparr>
      else if sql = ''INSERT INTO t VALUES (1) RETURNING a; SELECT 2; SELECT 3''
        then Inr \<lparr>stmts = [\<lparr>stmt = InsertStmt\<rparr>, \<lparr>stmt = SelectStmt\<rparr>, \<lparr>stmt = SelectStmt\<rparr>]\<rparr>
      else Inl (JError ''syntax error''))"

definition sample_engine :: "nat collab" where
  "sample_engine =
     \<lparr> PGlite_create = (\<lambda>cfg w. (Inr w, Suc w)),
       PGlite_query = (\<lambda>inst sql ps w.
          if sql = ''SELECT 1 as test_value'' then (Inr select_result, w)
          else (Inl (JError ''relation t does not exist''), w)),
       PGlite_exec = (\<lambda>inst sql w.
          if sql = ''INSERT INTO t VALUES (1) RETURNING a; SELECT 2; SELECT 3''
          then (Inr [returning_result, select_result, ddl_result], w)
          else (Inr [ddl_result, insert_result], w)),
       PGlite_close = (\<lambda>inst w. (Inr (), w)),
       parseQuerySync = sample_parse,
       callback_throws = (\<lambda>f e r. if f = 13 \<and> e = JNull then Some (JError ''callback failed'') else None) \<rparr>"

text \<open>An engine whose creation always throws.\<close>

definition broken_engine :: "nat collab" where
  "broken_engine = sample_engine\<lparr> PGlite_create := (\<lambda>cfg w. (Inl (JError ''cannot open data directory''), w)) \<rparr>"

text \<open>A handle that was never connected, and one that holds instance \<open>0\<close>.\<close>

definition fresh_pool :: "nat pool" where
  "fresh_pool = \<lparr> connection = None, world = 0, trace = [] \<rparr>"

definition connected_pool :: "nat pool" where
  "connected_pool = \<lparr> connection = Some 0, world = 1, trace = [] \<rparr>"

section \<open>Basic facts about the call log\<close>

lemma trace_emit: "trace (emit e s) = trace s @ [e]"
  by (simp add: emit_def)

lemma connection_emit: "connection (emit e s) = connection s"
  by (simp add: emit_def)

lemma world_emit: "world (emit e s) = world s"
  by (simp add: emit_def)

lemma is_created_is_create: "is_created e \<Longrightarrow> is_create e"
  by (cases e rule: is_created.cases) simp_all

lemma successful_le_calls: "successful_creations evs \<le> creation_calls evs"
  by (induction evs) (auto simp: successful_creations_def creation_calls_def is_created_is_create)

section \<open>The boolean serializer\<close>

text \<open>
  C4. The boolean serializer maps the string "true" and the boolean true to TRUE, the
  string "false" and the boolean false to FALSE, the number 1 to TRUE and the number 0 to
  FALSE; every value that matches none of the six literals (matching is strict equality,
  under which \<^verbatim>\<open>-0\<close> is the number 0), \<^verbatim>\<open>null\<close> included, is returned unmodified. The six
  literals are pairwise distinct under strict equality, so the first matching rule is the
  only matching rule.
\<close>

theorem bool_serializer_table:
  "(strict_eq v (JStr ''true'') \<longrightarrow> bool_serializer v = JStr ''TRUE'') \<and>
   (strict_eq v (JBool True) \<longrightarrow> bool_serializer v = JStr ''TRUE'') \<and>
   (strict_eq v (JStr ''false'') \<longrightarrow> bool_serializer v = JStr ''FALSE'') \<and>
   (strict_eq v (JBool False) \<longrightarrow> bool_serializer v = JStr ''FALSE'') \<and>
   (strict_eq v (JNum (Finite 1)) \<longrightarrow> bool_serializer v = JStr ''TRUE'') \<and>
   (strict_eq v (JNum (Finite 0)) \<longrightarrow> bool_serializer v = JStr ''FALSE'') \<and>
   (\<not> strict_eq v (JStr ''true'') \<and> \<not> strict_eq v (JBool True) \<and>
    \<not> strict_eq v (JStr ''false'') \<and> \<not> strict_eq v (JBool False) \<and>
    \<not> strict_eq v (JNum (Finite 1)) \<and> \<not> strict_eq v (JNum (Finite 0))
      \<longrightarrow> bool_serializer v = v) \<and>
   bool_serializer JNull = JNull"
  by (cases v) (auto simp: bool_serializer_def num_strict_eq_def is_zero_def)

text \<open>The table at a value that matches no rule, at \<^verbatim>\<open>-0\<close> and at \<^verbatim>\<open>1\<close>.\<close>

theorem bool_serializer_table_witness:
  "\<not> strict_eq (JStr ''yes'') (JStr ''true'') \<and> bool_serializer (JStr ''yes'') = JStr ''yes'' \<and>
   strict_eq (JNum NegZero) (JNum (Finite 0)) \<and> bool_serializer (JNum NegZero) = JStr ''FALSE'' \<and>
   strict_eq (JNum (Finite 1)) (JNum (Finite 1)) \<and> bool_serializer (JNum (Finite 1)) = JStr ''TRUE''"
  using bool_serializer_table [of "JStr ''yes''"] bool_serializer_table [of "JNum NegZero"]
    bool_serializer_table [of "JNum (Finite 1)"]
  by (simp add: num_strict_eq_def is_zero_def)

section \<open>The serializer registry\<close>

text \<open>
  C9. When the caller's options carry a serializer table, the table handed to engine
  creation is the key-wise merge of the built-in boolean serializer with the caller's
  table: a caller entry under the boolean type identifier replaces the built-in one,
  every other key holds exactly what the caller supplied, and the built-in boolean
  serializer stays when the caller has no entry under that key. It is this merged
  configuration that \<^verbatim>\<open>connect\<close> passes to the creation call.
\<close>

theorem serializers_merged:
  assumes "pgliteOptions = Some opts" and "serializers opts = Some callers"
  shows "(\<exists>m. serializers (create_options pgliteOptions) = Some m \<and>
           (\<forall>f. callers types_BOOL = Some f \<longrightarrow> m types_BOOL = Some f) \<and>
           (\<forall>k. k \<noteq> types_BOOL \<longrightarrow> m k = callers k) \<and>
           (callers types_BOOL = None \<longrightarrow> m types_BOOL = Some bool_serializer)) \<and>
         (connection s = None \<longrightarrow>
           (\<exists>r. hd (new_events s (connect C pgliteOptions cb s)) =
                  Create (create_options pgliteOptions) r))"
  using assms
  by (auto simp: create_options_def spread_serializers_def map_add_def connect_def
      connect_start_def connect_resume_def Let_def new_events_def trace_emit
      split: option.splits sum.splits prod.splits)

text \<open>
  A caller table with an entry for type 25 only keeps the built-in boolean serializer
  and gains the entry; a caller table with an entry for the boolean type overrides it.
\<close>

theorem serializers_merged_witness:
  "serializers \<lparr>serializers = Some [25 \<mapsto> (\<lambda>v. JStr ''text'')], others = []\<rparr> =
     Some [25 \<mapsto> (\<lambda>v. JStr ''text'')] \<and>
   [25 \<mapsto> (\<lambda>v. JStr ''text'')] types_BOOL = None \<and>
   the (serializers (create_options
          (Some \<lparr>serializers = Some [25 \<mapsto> (\<lambda>v. JStr ''text'')], others = []\<rparr>))) types_BOOL =
     Some bool_serializer \<and>
   the (serializers (create_options
          (Some \<lparr>serializers = Some [25 \<mapsto> (\<lambda>v. JStr ''text'')], others = []\<rparr>))) 25 =
     Some (\<lambda>v. JStr ''text'') \<and>
   [types_BOOL \<mapsto> (\<lambda>v. JStr ''t'')] types_BOOL = Some (\<lambda>v. JStr ''t'') \<and>
   the (serializers (create_options
          (Some \<lparr>serializers = Some [types_BOOL \<mapsto> (\<lambda>v. JStr ''t'')], others = []\<rparr>))) types_BOOL =
     Some (\<lambda>v. JStr ''t'') \<and>
   connection fresh_pool = None"
  using serializers_merged [of "Some \<lparr>serializers = Some [25 \<mapsto> (\<lambda>v. JStr ''text'')], others = []\<rparr>"
      "\<lparr>serializers = Some [25 \<mapsto> (\<lambda>v. JStr ''text'')], others = []\<rparr>"
      "[25 \<mapsto> (\<lambda>v. JStr ''text'')]" fresh_pool sample_engine 1]
    serializers_merged [of "Some \<lparr>serializers = Some [types_BOOL \<mapsto> (\<lambda>v. JStr ''t'')], others = []\<rparr>"
      "\<lparr>serializers = Some [types_BOOL \<mapsto> (\<lambda>v. JStr ''t'')], others = []\<rparr>"
      "[types_BOOL \<mapsto> (\<lambda>v. JStr ''t'')]" fresh_pool sample_engine 1]
  by (auto simp: types_BOOL_def fresh_pool_def)

section \<open>The connection lifecycle\<close>

lemma connect_connected:
  "connection s = Some conn \<Longrightarrow>
     connect C pgliteOptions cb s = emit (ConnectCb cb JNull (Some This) noop) s"
  by (simp add: connect_def connect_start_def)

lemma connect_step:
  "\<exists>evs. trace (connect C pgliteOptions cb s) = trace s @ evs \<and>
     (connection s \<noteq> None \<longrightarrow> creation_calls evs = 0 \<and>
        connection (connect C pgliteOptions cb s) = connection s) \<and>
     (connection s = None \<and> connection (connect C pgliteOptions cb s) = None \<longrightarrow>
        successful_creations evs = 0) \<and>
     successful_creations evs \<le> 1"
  by (auto simp: connect_def connect_start_def connect_resume_def Let_def trace_emit
      connection_emit creation_calls_def successful_creations_def
      split: option.splits sum.splits prod.splits)

lemma connect_unconnected:
  "connection s = None \<Longrightarrow>
     creation_calls (new_events s (connect C pgliteOptions cb s)) = 1 \<and>
     (\<forall>error. fst (PGlite_create C (create_options pgliteOptions) (world s)) = Inl error \<longrightarrow>
        connection (connect C pgliteOptions cb s) = None)"
  by (auto simp: connect_def connect_start_def connect_resume_def Let_def trace_emit
      connection_emit creation_calls_def new_events_def
      split: option.splits sum.splits prod.splits)

text \<open>
  A run of \<^verbatim>\<open>connect\<close> calls, one per callback of the list: once an instance is stored
  no call reaches the engine, and at most one creation succeeds.
\<close>

lemma connects_trace:
  "\<exists>evs. trace (fold (connect C pgliteOptions) cbs s) = trace s @ evs \<and>
     (connection s \<noteq> None \<longrightarrow> creation_calls evs = 0 \<and>
        connection (fold (connect C pgliteOptions) cbs s) = connection s) \<and>
     successful_creations evs \<le> (if connection s = None then 1 else 0)"
proof (induction cbs arbitrary: s)
  case Nil
  show ?case by (simp add: successful_creations_def creation_calls_def)
next
  case (Cons cb cbs)
  let ?s1 = "connect C pgliteOptions cb s"
  from connect_step [of C pgliteOptions cb s]
  obtain e1 where e1: "trace ?s1 = trace s @ e1"
    "connection s \<noteq> None \<longrightarrow> creation_calls e1 = 0 \<and> connection ?s1 = connection s"
    "connection s = None \<and> connection ?s1 = None \<longrightarrow> successful_creations e1 = 0"
    "successful_creations e1 \<le> 1"
    by blast
  from Cons.IH [of ?s1]
  obtain e2 where e2: "trace (fold (connect C pgliteOptions) cbs ?s1) = trace ?s1 @ e2"
    "connection ?s1 \<noteq> None \<longrightarrow> creation_calls e2 = 0 \<and>
       connection (fold (connect C pgliteOptions) cbs ?s1) = connection ?s1"
    "successful_creations e2 \<le> (if connection ?s1 = None then 1 else 0)"
    by blast
  have split_calls: "creation_calls (e1 @ e2) = creation_calls e1 + creation_calls e2"
    by (simp add: creation_calls_def)
  have split_succ: "successful_creations (e1 @ e2) = successful_creations e1 + successful_creations e2"
    by (simp add: successful_creations_def)
  have zero: "creation_calls e2 = 0 \<Longrightarrow> successful_creations e2 = 0"
    using successful_le_calls [of e2] by simp
  have "trace (fold (connect C pgliteOptions) (cb # cbs) s) = trace s @ (e1 @ e2)"
    using e1(1) e2(1) by simp
  moreover have "connection s \<noteq> None \<longrightarrow> creation_calls (e1 @ e2) = 0 \<and>
        connection (fold (connect C pgliteOptions) (cb # cbs) s) = connection s"
    using e1(2) e2(2) split_calls by auto
  moreover have "successful_creations (e1 @ e2) \<le> (if connection s = None then 1 else 0)"
  proof (cases "connection s = None")
    case False
    with e1(2) e2(2) have "creation_calls e1 = 0" "creation_calls e2 = 0" by auto
    then have "creation_calls (e1 @ e2) = 0" using split_calls by simp
    then have "successful_creations (e1 @ e2) = 0"
      using successful_le_calls [of "e1 @ e2"] by simp
    with False show ?thesis by simp
  next
    case True
    show ?thesis
    proof (cases "connection ?s1 = None")
      case True
      with \<open>connection s = None\<close> e1(3) e2(3) split_succ show ?thesis by simp
    next
      case False
      with e2(2) have "creation_calls e2 = 0" by simp
      then have "successful_creations e2 = 0" by (rule zero)
      with e1(4) split_succ \<open>connection s = None\<close> show ?thesis by simp
    qed
  qed
  ultimately show ?case by blast
qed

text \<open>
  C7 (amended). Calling \<^verbatim>\<open>connect\<close> on a handle that holds an engine instance invokes
  \<^verbatim>\<open>callback(null, handle, noop)\<close> and changes nothing else. Over an arbitrary sequence
  of \<^verbatim>\<open>connect\<close> calls with no \<^verbatim>\<open>end\<close> in between, each call running to completion
  before the next is issued, a handle that holds an instance keeps that instance and
  makes no engine-creation call, and on any handle at most one engine-creation call
  succeeds, so the handle never holds a second instance. A \<^verbatim>\<open>connect\<close> on a handle
  without an instance makes exactly one engine-creation call, and when that call throws
  the handle is left without an instance, so the next \<^verbatim>\<open>connect\<close> calls creation again.
\<close>

theorem connect_reuses_instance:
  "(connection s = Some conn \<longrightarrow>
      connect C pgliteOptions cb s = emit (ConnectCb cb JNull (Some This) noop) s \<and>
      connection (fold (connect C pgliteOptions) cbs s) = Some conn \<and>
      creation_calls (new_events s (fold (connect C pgliteOptions) cbs s)) = 0) \<and>
   successful_creations (new_events s (fold (connect C pgliteOptions) cbs s)) \<le> 1 \<and>
   (connection s = None \<longrightarrow>
      creation_calls (new_events s (connect C pgliteOptions cb s)) = 1 \<and>
      (\<forall>error. fst (PGlite_create C (create_options pgliteOptions) (world s)) = Inl error \<longrightarrow>
         connection (connect C pgliteOptions cb s) = None))"
proof -
  from connects_trace [of C pgliteOptions cbs s]
  obtain evs where evs: "trace (fold (connect C pgliteOptions) cbs s) = trace s @ evs"
    "connection s \<noteq> None \<longrightarrow> creation_calls evs = 0 \<and>
       connection (fold (connect C pgliteOptions) cbs s) = connection s"
    "successful_creations evs \<le> (if connection s = None then 1 else 0)"
    by blast
  from evs(1) have "new_events s (fold (connect C pgliteOptions) cbs s) = evs"
    by (simp add: new_events_def)
  with evs(2,3) have serial: "(connection s = Some conn \<longrightarrow>
      connect C pgliteOptions cb s = emit (ConnectCb cb JNull (Some This) noop) s \<and>
      connection (fold (connect C pgliteOptions) cbs s) = Some conn \<and>
      creation_calls (new_events s (fold (connect C pgliteOptions) cbs s)) = 0) \<and>
   successful_creations (new_events s (fold (connect C pgliteOptions) cbs s)) \<le> 1"
    by (auto simp: connect_connected split: if_splits)
  from connect_unconnected [of s C pgliteOptions cb]
  have retry: "connection s = None \<longrightarrow>
      creation_calls (new_events s (connect C pgliteOptions cb s)) = 1 \<and>
      (\<forall>error. fst (PGlite_create C (create_options pgliteOptions) (world s)) = Inl error \<longrightarrow>
         connection (connect C pgliteOptions cb s) = None)"
    by blast
  from serial retry show ?thesis
    by blast
qed

text \<open>
  Three \<^verbatim>\<open>connect\<close> calls on a connected handle and on a fresh one, and one call
  against the engine whose creation throws.
\<close>

theorem connect_reuses_instance_witness:
  "connection connected_pool = Some 0 \<and>
   connection (fold (connect sample_engine None) [1, 2, 3] connected_pool) = Some 0 \<and>
   creation_calls
     (new_events connected_pool (fold (connect sample_engine None) [1, 2, 3] connected_pool)) = 0 \<and>
   successful_creations
     (new_events fresh_pool (fold (connect sample_engine None) [1, 2, 3] fresh_pool)) \<le> 1 \<and>
   connection fresh_pool = None \<and>
   fst (PGlite_create broken_engine (create_options None) (world fresh_pool)) =
     Inl (JError ''cannot open data directory'') \<and>
   creation_calls (new_events fresh_pool (connect broken_engine None 1 fresh_pool)) = 1 \<and>
   connection (connect broken_engine None 1 fresh_pool) = None"
proof -
  have h: "connection connected_pool = Some 0"
    by (simp add: connected_pool_def)
  have k: "connection fresh_pool = None"
    by (simp add: fresh_pool_def)
  have b: "fst (PGlite_create broken_engine (create_options None) (world fresh_pool)) =
     Inl (JError ''cannot open data directory'')"
    by (simp add: broken_engine_def)
  note reuse = connect_reuses_instance [of connected_pool 0 sample_engine None 1 "[1, 2, 3]"]
  note once = connect_reuses_instance [of fresh_pool 0 sample_engine None 1 "[1, 2, 3]"]
  note retry = connect_reuses_instance [of fresh_pool 0 broken_engine None 1 "[]",
      THEN conjunct2, THEN conjunct2, rule_format, OF k]
  from reuse [THEN conjunct1, rule_format, OF h, THEN conjunct2] once [THEN conjunct2, THEN conjunct1]
    retry [THEN conjunct1] retry [THEN conjunct2, rule_format, OF b] h k b
  show ?thesis
    by blast
qed

text \<open>
  C7 as stated fails: when engine creation throws, two \<^verbatim>\<open>connect\<close> calls in a row on
  the same handle make two engine-creation calls.
\<close>

theorem connect_retries_creation_counterexample:
  "\<not> creation_calls (trace (fold (connect broken_engine None) [1, 2] fresh_pool)) \<le> 1"
  by (simp add: connect_def connect_start_def connect_resume_def broken_engine_def
      sample_engine_def fresh_pool_def Let_def emit_def creation_calls_def)

text \<open>
  Two \<^verbatim>\<open>connect\<close> calls that overlap: the second is issued while the first is
  suspended at line 44. Both find no instance and both create one; the handle ends up
  with the second instance, and nothing refers to the first any more.
\<close>

lemma overlapping_connects:
  "fst (connect_start sample_engine None 1 fresh_pool) = Some (AwaitingCreate 1 (Inr 0)) \<and>
   fst (connect_start sample_engine None 2 (snd (connect_start sample_engine None 1 fresh_pool))) =
     Some (AwaitingCreate 2 (Inr 1)) \<and>
   connect_resume (AwaitingCreate 2 (Inr 1))
     (connect_resume (AwaitingCreate 1 (Inr 0))
        (snd (connect_start sample_engine None 2
                (snd (connect_start sample_engine None 1 fresh_pool))))) =
     \<lparr> connection = Some 1, world = 2,
       trace = [Create (create_options None) (Inr 0), Create (create_options None) (Inr 1),
                ConnectCb 1 JNull (Some This) noop, ConnectCb 2 JNull (Some This) noop] \<rparr>"
  by (simp add: connect_start_def connect_resume_def sample_engine_def fresh_pool_def Let_def
      emit_def)

text \<open>
  C10. After an \<^verbatim>\<open>end\<close> whose close succeeded the stored instance is cleared (the close
  and \<^verbatim>\<open>callback(null)\<close> are the only events). A following \<^verbatim>\<open>connect\<close> on the same
  handle does not take the already-connected shortcut: it calls engine creation with the
  merged configuration, and stores the instance the creation returns (or, when creation
  throws, reports that error and stores nothing).
\<close>

theorem connect_after_end:
  assumes "connection s = Some conn"
    and "PGlite_close C conn (world s) = (Inr u, w)"
    and "PGlite_create C (create_options pgliteOptions) w = (r, w')"
  shows "connection (pool_end C cb s) = None \<and>
         new_events s (pool_end C cb s) = [Close conn, EndCb cb JNull] \<and>
         new_events (pool_end C cb s) (connect C pgliteOptions cb' (pool_end C cb s)) =
           [Create (create_options pgliteOptions) r,
            (case r of Inr inst \<Rightarrow> ConnectCb cb' JNull (Some This) noop
             | Inl error \<Rightarrow> ConnectCb cb' error None noop)] \<and>
         connection (connect C pgliteOptions cb' (pool_end C cb s)) =
           (case r of Inr inst \<Rightarrow> Some inst | Inl error \<Rightarrow> None)"
  using assms
  by (auto simp: pool_end_def connect_def connect_start_def connect_resume_def Let_def
      new_events_def trace_emit connection_emit world_emit
      split: option.splits sum.splits prod.splits)

text \<open>Ending the handle that holds instance 0 and connecting again stores instance 1.\<close>

theorem connect_after_end_witness:
  "connection connected_pool = Some 0 \<and>
   PGlite_close sample_engine 0 (world connected_pool) = (Inr (), 1) \<and>
   PGlite_create sample_engine (create_options None) 1 = (Inr 1, 2) \<and>
   connection (pool_end sample_engine 3 connected_pool) = None \<and>
   connection (connect sample_engine None 4 (pool_end sample_engine 3 connected_pool)) = Some 1"
proof -
  have h1: "connection connected_pool = Some 0"
    by (simp add: connected_pool_def)
  have h2: "PGlite_close sample_engine 0 (world connected_pool) = (Inr (), 1)"
    by (simp add: sample_engine_def connected_pool_def)
  have h3: "PGlite_create sample_engine (create_options None) 1 = (Inr 1, 2)"
    by (simp add: sample_engine_def)
  from connect_after_end [OF h1 h2 h3, of 3 4] h1 h2 h3 show ?thesis
    by simp
qed

text \<open>
  C3. On a handle without an engine instance \<^verbatim>\<open>end(callback)\<close> should succeed as a
  no-op and still invoke \<^verbatim>\<open>callback(null)\<close>. The code returns without any effect: the
  state, log included, is unchanged, so the callback is never invoked; on the fresh
  handle the log stays empty.
\<close>

theorem end_without_instance:
  "pool_end C cb (s\<lparr>connection := None\<rparr>) = s\<lparr>connection := None\<rparr> \<and>
   trace (pool_end sample_engine 3 fresh_pool) = []"
  by (simp add: pool_end_def fresh_pool_def)

section \<open>query\<close>

text \<open>
  C2. \<^verbatim>\<open>query\<close> on a handle without an engine instance should deliver the
  initialization-order error both to the supplied callback and as the rejection of the
  returned promise, with no parser or engine call. The code rejects the promise with the
  locally raised error and makes no parser or engine call, but the state, log included,
  is unchanged: the callback is never invoked, in whichever position it was supplied.
\<close>

theorem query_before_connect:
  "query C sqlQuery paramsOrCb cb (s\<lparr>connection := None\<rparr>) =
     (Inl not_initialized, s\<lparr>connection := None\<rparr>) \<and>
   query sample_engine ''SELECT 1 as test_value'' (PCb 7) None fresh_pool =
     (Inl not_initialized, fresh_pool) \<and>
   trace fresh_pool = []"
  by (simp add: query_def fresh_pool_def)

lemma throws_opt_None [simp]: "throws_opt C None e r = None"
  by (simp add: throws_opt_def)

lemma throws_opt_Some [simp]: "throws_opt C (Some f) e r = callback_throws C f e r"
  by (simp add: throws_opt_def)

lemma fst_catch_clause:
  "fst (catch_clause C cb error s) =
     Inl (case throws_opt C cb error JNull of None \<Rightarrow> error | Some thrown \<Rightarrow> thrown)"
  by (simp add: catch_clause_def call_opt_def split: option.splits)

text \<open>The three fields of both result literals, read back.\<close>

lemma get_prop_result:
  "get_prop (JObj ((''rows'', a) # (''fields'', b) # (''rowCount'', c) # ps)) ''rows'' = a"
  "get_prop (JObj ((''rows'', a) # (''fields'', b) # (''rowCount'', c) # ps)) ''fields'' = b"
  "get_prop (JObj ((''rows'', a) # (''fields'', b) # (''rowCount'', c) # ps)) ''rowCount'' = c"
  by (simp_all add: get_prop_def)

lemma get_prop_command:
  "get_prop (JObj [(''rows'', a), (''fields'', b), (''rowCount'', c)]) ''command'' = JUndefined"
  "get_prop (JObj [(''rows'', a), (''fields'', b), (''rowCount'', c), (''command'', d)]) ''command'' = d"
  by (simp_all add: get_prop_def)

text \<open>The settlement of the promise on the two paths, once the engine call has returned.\<close>

lemma query_single_returned:
  assumes "connection s = Some conn"
    and "parseQuerySync C sqlQuery = Inr p"
    and "\<not> 1 < length (stmts p)"
    and "PGlite_query C conn sqlQuery (resolve_queryParams paramsOrCb) (world s) = (Inr results, w)"
  shows "fst (query C sqlQuery paramsOrCb cb s) =
           (case throws_opt C (resolve_queryCb paramsOrCb cb) JNull results of
              None \<Rightarrow>
                Inr (JObj [(''rows'', coalesce (get_prop results ''rows'') (JArr [])),
                           (''fields'', coalesce (get_prop results ''fields'') (JArr [])),
                           (''rowCount'', coalesce (get_prop results ''affectedRows'') JNull),
                           (''command'', command_of p)])
            | Some error \<Rightarrow>
                Inl (case throws_opt C (resolve_queryCb paramsOrCb cb) error JNull of
                       None \<Rightarrow> error | Some thrown \<Rightarrow> thrown))"
  using assms
  by (simp add: query_def world_emit Let_def call_opt_def fst_catch_clause split: option.splits)

lemma query_multi_returned:
  assumes "connection s = Some conn"
    and "parseQuerySync C sqlQuery = Inr p"
    and "1 < length (stmts p)"
    and "PGlite_exec C conn sqlQuery (world s) = (Inr results, w)"
  shows "fst (query C sqlQuery paramsOrCb cb s) =
           (case throws_opt C cb JNull (first_result results) of
              None \<Rightarrow>
                Inr (JObj [(''rows'', coalesce (get_prop (first_result results) ''rows'') (JArr [])),
                           (''fields'', coalesce (get_prop (first_result results) ''fields'') (JArr [])),
                           (''rowCount'',
                            coalesce (get_prop (first_result results) ''affectedRows'') JNull)])
            | Some error \<Rightarrow>
                Inl (case throws_opt C cb error JNull of None \<Rightarrow> error | Some thrown \<Rightarrow> thrown))"
  using assms
  by (simp add: query_def world_emit Let_def call_opt_def fst_catch_clause split: option.splits)

text \<open>
  A callback that throws when handed the result: the \<^verbatim>\<open>catch\<close> clause invokes it a
  second time, with what it threw, and the promise rejects although the engine call
  returned.
\<close>

lemma throwing_callback_run:
  "query sample_engine ''SELECT 1 as test_value'' (PCb 13) None connected_pool =
     (Inl (JError ''callback failed''),
      connected_pool\<lparr>trace :=
        [Parse ''SELECT 1 as test_value'', Query 0 ''SELECT 1 as test_value'' None,
         QueryCb 13 JNull select_result, QueryCb 13 (JError ''callback failed'') JNull]\<rparr>)"
  by (simp add: query_def sample_engine_def sample_parse_def connected_pool_def Let_def emit_def
      call_opt_def catch_clause_def resolve_queryCb_def resolve_queryParams_def)

text \<open>
  C5. On a connected handle, when the SQL text parses to exactly one statement and the
  engine query returns, the promise resolves unless the callback throws, and whenever it
  resolves the \<^verbatim>\<open>command\<close> field of the result is UPDATE, DELETE, INSERT or SELECT for
  a statement node of the matching kind, and \<^verbatim>\<open>undefined\<close> for a node of any other
  kind.
\<close>

theorem query_command:
  assumes "connection s = Some conn"
    and "parseQuerySync C sqlQuery = Inr p"
    and "stmts p = [st]"
    and "PGlite_query C conn sqlQuery (resolve_queryParams paramsOrCb) (world s) = (Inr results, w)"
  shows "(throws_opt C (resolve_queryCb paramsOrCb cb) JNull results = None \<longrightarrow>
            (\<exists>v. fst (query C sqlQuery paramsOrCb cb s) = Inr v)) \<and>
         (\<forall>v. fst (query C sqlQuery paramsOrCb cb s) = Inr v \<longrightarrow>
            get_prop v ''command'' =
              (case stmt st of
                 UpdateStmt \<Rightarrow> JStr ''UPDATE''
               | DeleteStmt \<Rightarrow> JStr ''DELETE''
               | InsertStmt \<Rightarrow> JStr ''INSERT''
               | SelectStmt \<Rightarrow> JStr ''SELECT''
               | OtherStmt k \<Rightarrow> JUndefined))"
proof -
  from assms(3) have single: "\<not> 1 < length (stmts p)"
    by simp
  have verb: "command_of p =
      (case stmt st of
         UpdateStmt \<Rightarrow> JStr ''UPDATE''
       | DeleteStmt \<Rightarrow> JStr ''DELETE''
       | InsertStmt \<Rightarrow> JStr ''INSERT''
       | SelectStmt \<Rightarrow> JStr ''SELECT''
       | OtherStmt k \<Rightarrow> JUndefined)"
    using assms(3) by (cases "stmt st") (simp_all add: command_of_def)
  from query_single_returned [OF assms(1,2) single assms(4), of cb] verb show ?thesis
    by (auto simp: get_prop_command split: option.splits)
qed

text \<open>The test suite's \<^verbatim>\<open>SELECT 1 as test_value\<close> yields the command SELECT.\<close>

theorem query_command_witness:
  "connection connected_pool = Some 0 \<and>
   parseQuerySync sample_engine ''SELECT 1 as test_value'' = Inr \<lparr>stmts = [\<lparr>stmt = SelectStmt\<rparr>]\<rparr> \<and>
   PGlite_query sample_engine 0 ''SELECT 1 as test_value'' (resolve_queryParams PUndefined)
     (world connected_pool) = (Inr select_result, 1) \<and>
   throws_opt sample_engine (resolve_queryCb PUndefined (Some 7)) JNull select_result = None \<and>
   get_prop (projr (fst (query sample_engine ''SELECT 1 as test_value'' PUndefined (Some 7)
       connected_pool))) ''command'' = JStr ''SELECT''"
proof -
  let ?p = "\<lparr>stmts = [\<lparr>stmt = SelectStmt\<rparr>]\<rparr>"
  have h1: "connection connected_pool = Some 0"
    by (simp add: connected_pool_def)
  have h2: "parseQuerySync sample_engine ''SELECT 1 as test_value'' = Inr ?p"
    by (simp add: sample_engine_def sample_parse_def)
  have h3: "stmts ?p = [\<lparr>stmt = SelectStmt\<rparr>]"
    by simp
  have h4: "PGlite_query sample_engine 0 ''SELECT 1 as test_value'' (resolve_queryParams PUndefined)
     (world connected_pool) = (Inr select_result, 1)"
    by (simp add: sample_engine_def connected_pool_def)
  have h5: "throws_opt sample_engine (resolve_queryCb PUndefined (Some 7)) JNull select_result = None"
    by (simp add: resolve_queryCb_def sample_engine_def)
  note run = query_command [OF h1 h2 h3 h4, of "Some 7"]
  from run [THEN conjunct1, rule_format, OF h5]
  obtain v where v: "fst (query sample_engine ''SELECT 1 as test_value'' PUndefined (Some 7)
      connected_pool) = Inr v"
    by blast
  from run [THEN conjunct2, rule_format, OF v] v
  have "get_prop (projr (fst (query sample_engine ''SELECT 1 as test_value'' PUndefined (Some 7)
          connected_pool))) ''command'' = JStr ''SELECT''"
    by simp
  with h1 h2 h4 h5 show ?thesis
    by blast
qed

lemma query_multi_events:
  assumes "connection s = Some conn"
    and "parseQuerySync C sqlQuery = Inr p"
    and "1 < length (stmts p)"
  shows "\<exists>evs. new_events s (snd (query C sqlQuery paramsOrCb cb s)) =
           [Parse sqlQuery, Exec conn sqlQuery] @ evs \<and>
           (\<forall>e \<in> set evs. \<exists>f a b. e = QueryCb f a b)"
  using assms
  by (auto simp: query_def Let_def new_events_def trace_emit call_opt_def catch_clause_def
      split: prod.splits sum.splits option.splits)

lemma query_multi_second_argument:
  assumes "connection s = Some conn"
    and "parseQuerySync C sqlQuery = Inr p"
    and "1 < length (stmts p)"
  shows "query C sqlQuery paramsOrCb cb s = query C sqlQuery PUndefined cb s"
  using assms by (simp add: query_def Let_def)

lemma query_multi_thrown:
  assumes "connection s = Some conn"
    and "parseQuerySync C sqlQuery = Inr p"
    and "1 < length (stmts p)"
    and "PGlite_exec C conn sqlQuery (world s) = (Inl error, w)"
  shows "fst (query C sqlQuery paramsOrCb cb s) =
           Inl (case throws_opt C cb error JNull of None \<Rightarrow> error | Some thrown \<Rightarrow> thrown)"
  using assms by (simp add: query_def world_emit Let_def fst_catch_clause)

text \<open>
  C6. On a connected handle, when the SQL text parses to more than one statement, the
  call goes to the engine's \<^verbatim>\<open>exec\<close> and never to its \<^verbatim>\<open>query\<close>; whatever was passed
  as second argument, parameters included, has no influence: the run is the run without
  a second argument, and no error is raised on their account. When \<^verbatim>\<open>exec\<close> returns
  its list of results, the promise resolves unless the callback throws, and whenever it
  resolves, \<^verbatim>\<open>rows\<close>, \<^verbatim>\<open>fields\<close> and \<^verbatim>\<open>rowCount\<close> of the result are read from the
  head of that list alone (all three take their defaults when the list is empty), and
  \<^verbatim>\<open>command\<close> is \<^verbatim>\<open>undefined\<close>. When \<^verbatim>\<open>exec\<close> throws, the promise rejects, with
  the thrown value unless the callback throws in its turn.
\<close>

theorem query_multi_statement:
  assumes "connection s = Some conn"
    and "parseQuerySync C sqlQuery = Inr p"
    and "1 < length (stmts p)"
    and "PGlite_exec C conn sqlQuery (world s) = (r, w)"
  shows "query C sqlQuery paramsOrCb cb s = query C sqlQuery PUndefined cb s \<and>
         take 2 (new_events s (snd (query C sqlQuery paramsOrCb cb s))) =
           [Parse sqlQuery, Exec conn sqlQuery] \<and>
         (\<forall>e \<in> set (new_events s (snd (query C sqlQuery paramsOrCb cb s))).
            \<forall>i q a. e \<noteq> Query i q a) \<and>
         (\<forall>res rest. r = Inr (res # rest) \<longrightarrow>
            (throws_opt C cb JNull res = None \<longrightarrow>
               (\<exists>v. fst (query C sqlQuery paramsOrCb cb s) = Inr v)) \<and>
            (\<forall>v. fst (query C sqlQuery paramsOrCb cb s) = Inr v \<longrightarrow>
               get_prop v ''rows'' =
                 (if nullish (get_prop res ''rows'') then JArr [] else get_prop res ''rows'') \<and>
               get_prop v ''fields'' =
                 (if nullish (get_prop res ''fields'') then JArr [] else get_prop res ''fields'') \<and>
               get_prop v ''rowCount'' =
                 (if nullish (get_prop res ''affectedRows'') then JNull
                  else get_prop res ''affectedRows'') \<and>
               get_prop v ''command'' = JUndefined)) \<and>
         (r = Inr [] \<longrightarrow>
            (throws_opt C cb JNull JUndefined = None \<longrightarrow>
               (\<exists>v. fst (query C sqlQuery paramsOrCb cb s) = Inr v)) \<and>
            (\<forall>v. fst (query C sqlQuery paramsOrCb cb s) = Inr v \<longrightarrow>
               get_prop v ''rows'' = JArr [] \<and> get_prop v ''fields'' = JArr [] \<and>
               get_prop v ''rowCount'' = JNull \<and> get_prop v ''command'' = JUndefined)) \<and>
         (\<forall>error. r = Inl error \<longrightarrow>
            (\<exists>e. fst (query C sqlQuery paramsOrCb cb s) = Inl e) \<and>
            (throws_opt C cb error JNull = None \<longrightarrow>
               fst (query C sqlQuery paramsOrCb cb s) = Inl error))"
proof -
  note second = query_multi_second_argument [OF assms(1-3), of paramsOrCb cb]
  from query_multi_events [OF assms(1-3), of paramsOrCb cb]
  obtain evs where evs: "new_events s (snd (query C sqlQuery paramsOrCb cb s)) =
      [Parse sqlQuery, Exec conn sqlQuery] @ evs" "\<forall>e \<in> set evs. \<exists>f a b. e = QueryCb f a b"
    by blast
  from evs(1) have first_two: "take 2 (new_events s (snd (query C sqlQuery paramsOrCb cb s))) =
      [Parse sqlQuery, Exec conn sqlQuery]"
    by simp
  from evs have no_query: "\<forall>e \<in> set (new_events s (snd (query C sqlQuery paramsOrCb cb s))).
      \<forall>i q a. e \<noteq> Query i q a"
    by auto
  have head: "\<forall>res rest. r = Inr (res # rest) \<longrightarrow>
      (throws_opt C cb JNull res = None \<longrightarrow>
         (\<exists>v. fst (query C sqlQuery paramsOrCb cb s) = Inr v)) \<and>
      (\<forall>v. fst (query C sqlQuery paramsOrCb cb s) = Inr v \<longrightarrow>
         get_prop v ''rows'' =
           (if nullish (get_prop res ''rows'') then JArr [] else get_prop res ''rows'') \<and>
         get_prop v ''fields'' =
           (if nullish (get_prop res ''fields'') then JArr [] else get_prop res ''fields'') \<and>
         get_prop v ''rowCount'' =
           (if nullish (get_prop res ''affectedRows'') then JNull
            else get_prop res ''affectedRows'') \<and>
         get_prop v ''command'' = JUndefined)"
  proof (intro allI impI)
    fix res rest
    assume "r = Inr (res # rest)"
    with assms(4) have ex: "PGlite_exec C conn sqlQuery (world s) = (Inr (res # rest), w)"
      by simp
    have fr: "first_result (res # rest) = res"
      by (simp add: first_result_def)
    from query_multi_returned [OF assms(1-3) ex, of paramsOrCb cb] fr
    show "(throws_opt C cb JNull res = None \<longrightarrow>
         (\<exists>v. fst (query C sqlQuery paramsOrCb cb s) = Inr v)) \<and>
      (\<forall>v. fst (query C sqlQuery paramsOrCb cb s) = Inr v \<longrightarrow>
         get_prop v ''rows'' =
           (if nullish (get_prop res ''rows'') then JArr [] else get_prop res ''rows'') \<and>
         get_prop v ''fields'' =
           (if nullish (get_prop res ''fields'') then JArr [] else get_prop res ''fields'') \<and>
         get_prop v ''rowCount'' =
           (if nullish (get_prop res ''affectedRows'') then JNull
            else get_prop res ''affectedRows'') \<and>
         get_prop v ''command'' = JUndefined)"
      by (auto simp: get_prop_result get_prop_command coalesce_def split: option.splits)
  qed
  have empty: "r = Inr [] \<longrightarrow>
      (throws_opt C cb JNull JUndefined = None \<longrightarrow>
         (\<exists>v. fst (query C sqlQuery paramsOrCb cb s) = Inr v)) \<and>
      (\<forall>v. fst (query C sqlQuery paramsOrCb cb s) = Inr v \<longrightarrow>
         get_prop v ''rows'' = JArr [] \<and> get_prop v ''fields'' = JArr [] \<and>
         get_prop v ''rowCount'' = JNull \<and> get_prop v ''command'' = JUndefined)"
  proof
    assume "r = Inr []"
    with assms(4) have ex: "PGlite_exec C conn sqlQuery (world s) = (Inr [], w)"
      by simp
    have fr: "first_result [] = JUndefined"
      by (simp add: first_result_def)
    have undef: "get_prop JUndefined k = JUndefined" for k
      by (simp add: get_prop_def)
    from query_multi_returned [OF assms(1-3) ex, of paramsOrCb cb] fr
    show "(throws_opt C cb JNull JUndefined = None \<longrightarrow>
         (\<exists>v. fst (query C sqlQuery paramsOrCb cb s) = Inr v)) \<and>
      (\<forall>v. fst (query C sqlQuery paramsOrCb cb s) = Inr v \<longrightarrow>
         get_prop v ''rows'' = JArr [] \<and> get_prop v ''fields'' = JArr [] \<and>
         get_prop v ''rowCount'' = JNull \<and> get_prop v ''command'' = JUndefined)"
      by (auto simp: get_prop_result get_prop_command coalesce_def nullish_def undef
          split: option.splits)
  qed
  have thrown: "\<forall>error. r = Inl error \<longrightarrow>
      (\<exists>e. fst (query C sqlQuery paramsOrCb cb s) = Inl e) \<and>
      (throws_opt C cb error JNull = None \<longrightarrow>
         fst (query C sqlQuery paramsOrCb cb s) = Inl error)"
  proof (intro allI impI)
    fix error
    assume "r = Inl error"
    with assms(4) have ex: "PGlite_exec C conn sqlQuery (world s) = (Inl error, w)"
      by simp
    from query_multi_thrown [OF assms(1-3) ex, of paramsOrCb cb]
    show "(\<exists>e. fst (query C sqlQuery paramsOrCb cb s) = Inl e) \<and>
      (throws_opt C cb error JNull = None \<longrightarrow>
         fst (query C sqlQuery paramsOrCb cb s) = Inl error)"
      by simp
  qed
  from second first_two no_query head empty thrown show ?thesis
    by blast
qed

text \<open>
  A three-statement script run with a parameter and a callback: the result carries the
  row, the field and the count of the first statement, not those of the later ones.
\<close>

theorem query_multi_statement_witness:
  "connection connected_pool = Some 0 \<and>
   parseQuerySync sample_engine ''INSERT INTO t VALUES (1) RETURNING a; SELECT 2; SELECT 3'' =
     Inr \<lparr>stmts = [\<lparr>stmt = InsertStmt\<rparr>, \<lparr>stmt = SelectStmt\<rparr>, \<lparr>stmt = SelectStmt\<rparr>]\<rparr> \<and>
   1 < length (stmts \<lparr>stmts = [\<lparr>stmt = InsertStmt\<rparr>, \<lparr>stmt = SelectStmt\<rparr>, \<lparr>stmt = SelectStmt\<rparr>]\<rparr>) \<and>
   PGlite_exec sample_engine 0 ''INSERT INTO t VALUES (1) RETURNING a; SELECT 2; SELECT 3''
     (world connected_pool) = (Inr [returning_result, select_result, ddl_result], 1) \<and>
   throws_opt sample_engine (Some 7) JNull returning_result = None \<and>
   get_prop (projr (fst (query sample_engine
       ''INSERT INTO t VALUES (1) RETURNING a; SELECT 2; SELECT 3''
       (PParams [JNum (Finite 1)]) (Some 7) connected_pool))) ''rows'' =
     JArr [JObj [(''a'', JNum (Finite 1))]] \<and>
   get_prop (projr (fst (query sample_engine
       ''INSERT INTO t VALUES (1) RETURNING a; SELECT 2; SELECT 3''
       (PParams [JNum (Finite 1)]) (Some 7) connected_pool))) ''fields'' =
     JArr [JObj [(''name'', JStr ''a''), (''dataTypeID'', JNum (Finite 23))]] \<and>
   get_prop (projr (fst (query sample_engine
       ''INSERT INTO t VALUES (1) RETURNING a; SELECT 2; SELECT 3''
       (PParams [JNum (Finite 1)]) (Some 7) connected_pool))) ''rowCount'' = JNum (Finite 1) \<and>
   get_prop (projr (fst (query sample_engine
       ''INSERT INTO t VALUES (1) RETURNING a; SELECT 2; SELECT 3''
       (PParams [JNum (Finite 1)]) (Some 7) connected_pool))) ''command'' = JUndefined \<and>
   take 2 (new_events connected_pool (snd (query sample_engine
       ''INSERT INTO t VALUES (1) RETURNING a; SELECT 2; SELECT 3''
       (PParams [JNum (Finite 1)]) (Some 7) connected_pool))) =
     [Parse ''INSERT INTO t VALUES (1) RETURNING a; SELECT 2; SELECT 3'',
      Exec 0 ''INSERT INTO t VALUES (1) RETURNING a; SELECT 2; SELECT 3'']"
proof -
  let ?sql = "''INSERT INTO t VALUES (1) RETURNING a; SELECT 2; SELECT 3''"
  let ?p = "\<lparr>stmts = [\<lparr>stmt = InsertStmt\<rparr>, \<lparr>stmt = SelectStmt\<rparr>, \<lparr>stmt = SelectStmt\<rparr>]\<rparr>"
  let ?run = "query sample_engine ?sql (PParams [JNum (Finite 1)]) (Some 7) connected_pool"
  have h1: "connection connected_pool = Some 0"
    by (simp add: connected_pool_def)
  have h2: "parseQuerySync sample_engine ?sql = Inr ?p"
    by (simp add: sample_engine_def sample_parse_def)
  have h3: "1 < length (stmts ?p)"
    by simp
  have h4: "PGlite_exec sample_engine 0 ?sql (world connected_pool) =
      (Inr [returning_result, select_result, ddl_result], 1)"
    by (simp add: sample_engine_def connected_pool_def)
  have h5: "throws_opt sample_engine (Some 7) JNull returning_result = None"
    by (simp add: sample_engine_def)
  note run = query_multi_statement [OF h1 h2 h3 h4, of "PParams [JNum (Finite 1)]" "Some 7"]
  note evs = run [THEN conjunct2, THEN conjunct1]
  note head = run [THEN conjunct2, THEN conjunct2, THEN conjunct2, THEN conjunct1, rule_format,
      OF refl]
  from head [THEN conjunct1, rule_format, OF h5]
  obtain v where v: "fst ?run = Inr v"
    by blast
  from head [THEN conjunct2, rule_format, OF v] v
  have fields: "get_prop (projr (fst ?run)) ''rows'' = JArr [JObj [(''a'', JNum (Finite 1))]]"
    "get_prop (projr (fst ?run)) ''fields'' =
       JArr [JObj [(''name'', JStr ''a''), (''dataTypeID'', JNum (Finite 23))]]"
    "get_prop (projr (fst ?run)) ''rowCount'' = JNum (Finite 1)"
    "get_prop (projr (fst ?run)) ''command'' = JUndefined"
    by (simp_all add: returning_result_def get_prop_def nullish_def)
  from h1 h2 h3 h4 h5 fields evs show ?thesis
    by blast
qed

text \<open>
  C8. Whenever \<^verbatim>\<open>query\<close> normalizes an engine result (the result of the engine query
  on the single-statement path, the first element of what \<^verbatim>\<open>exec\<close> returned on the
  multi-statement path), the promise resolves unless the callback throws, and whenever
  it resolves, \<^verbatim>\<open>rowCount\<close> is the engine's \<^verbatim>\<open>affectedRows\<close> when that is present,
  zero staying zero, and \<^verbatim>\<open>null\<close> exactly when the engine result carries no such
  figure; \<^verbatim>\<open>rows\<close> and \<^verbatim>\<open>fields\<close> are the engine's when present and the empty array
  otherwise, and so never \<^verbatim>\<open>undefined\<close>.
\<close>

theorem query_result_shape:
  assumes "connection s = Some conn"
    and "parseQuerySync C sqlQuery = Inr p"
    and "(1 < length (stmts p) \<and>
            (\<exists>rs. fst (PGlite_exec C conn sqlQuery (world s)) = Inr rs \<and> r = first_result rs)) \<or>
         (\<not> 1 < length (stmts p) \<and>
            fst (PGlite_query C conn sqlQuery (resolve_queryParams paramsOrCb) (world s)) = Inr r)"
  shows "(throws_opt C (if 1 < length (stmts p) then cb else resolve_queryCb paramsOrCb cb)
            JNull r = None \<longrightarrow>
            (\<exists>v. fst (query C sqlQuery paramsOrCb cb s) = Inr v)) \<and>
         (\<forall>v. fst (query C sqlQuery paramsOrCb cb s) = Inr v \<longrightarrow>
            get_prop v ''rowCount'' =
              (if nullish (get_prop r ''affectedRows'') then JNull else get_prop r ''affectedRows'') \<and>
            (get_prop v ''rowCount'' = JNull \<longleftrightarrow> nullish (get_prop r ''affectedRows'')) \<and>
            (get_prop r ''affectedRows'' = JNum (Finite 0) \<longrightarrow>
               get_prop v ''rowCount'' = JNum (Finite 0)) \<and>
            get_prop v ''rows'' =
              (if nullish (get_prop r ''rows'') then JArr [] else get_prop r ''rows'') \<and>
            get_prop v ''fields'' =
              (if nullish (get_prop r ''fields'') then JArr [] else get_prop r ''fields'') \<and>
            \<not> nullish (get_prop v ''rows'') \<and> \<not> nullish (get_prop v ''fields''))"
proof -
  from assms(3) show ?thesis
  proof
    assume m: "1 < length (stmts p) \<and>
            (\<exists>rs. fst (PGlite_exec C conn sqlQuery (world s)) = Inr rs \<and> r = first_result rs)"
    then obtain rs w where ex: "PGlite_exec C conn sqlQuery (world s) = (Inr rs, w)"
      and r: "r = first_result rs"
      by (metis prod.collapse)
    from m have multi: "1 < length (stmts p)"
      by simp
    from query_multi_returned [OF assms(1,2) multi ex, of paramsOrCb cb] r multi show ?thesis
      by (auto simp: get_prop_result coalesce_def nullish_def split: option.splits)
  next
    assume q: "\<not> 1 < length (stmts p) \<and>
            fst (PGlite_query C conn sqlQuery (resolve_queryParams paramsOrCb) (world s)) = Inr r"
    then obtain w where
      ex: "PGlite_query C conn sqlQuery (resolve_queryParams paramsOrCb) (world s) = (Inr r, w)"
      by (metis prod.collapse)
    from q have single: "\<not> 1 < length (stmts p)"
      by simp
    from query_single_returned [OF assms(1,2) single ex, of cb] single show ?thesis
      by (auto simp: get_prop_result coalesce_def nullish_def split: option.splits)
  qed
qed

text \<open>
  An engine result that reports zero affected rows gives \<^verbatim>\<open>rowCount\<close> zero; the first
  result of a script, which reports no figure, gives \<^verbatim>\<open>rowCount\<close> \<^verbatim>\<open>null\<close>.
\<close>

theorem query_result_shape_witness:
  "connection connected_pool = Some 0 \<and>
   parseQuerySync sample_engine ''SELECT 1 as test_value'' = Inr \<lparr>stmts = [\<lparr>stmt = SelectStmt\<rparr>]\<rparr> \<and>
   \<not> 1 < length (stmts \<lparr>stmts = [\<lparr>stmt = SelectStmt\<rparr>]\<rparr>) \<and>
   fst (PGlite_query sample_engine 0 ''SELECT 1 as test_value'' (resolve_queryParams PUndefined)
          (world connected_pool)) = Inr select_result \<and>
   get_prop select_result ''affectedRows'' = JNum (Finite 0) \<and>
   get_prop (projr (fst (query sample_engine ''SELECT 1 as test_value'' PUndefined None connected_pool)))
     ''rowCount'' = JNum (Finite 0) \<and>
   parseQuerySync sample_engine ''CREATE TABLE t (a int); INSERT INTO t VALUES (1)'' =
     Inr \<lparr>stmts = [\<lparr>stmt = OtherStmt ''CreateStmt''\<rparr>, \<lparr>stmt = InsertStmt\<rparr>]\<rparr> \<and>
   fst (PGlite_exec sample_engine 0 ''CREATE TABLE t (a int); INSERT INTO t VALUES (1)''
          (world connected_pool)) = Inr [ddl_result, insert_result] \<and>
   nullish (get_prop ddl_result ''affectedRows'') \<and>
   get_prop (projr (fst (query sample_engine ''CREATE TABLE t (a int); INSERT INTO t VALUES (1)''
        PUndefined None connected_pool))) ''rowCount'' = JNull"
proof -
  let ?p = "\<lparr>stmts = [\<lparr>stmt = SelectStmt\<rparr>]\<rparr>"
  let ?sql2 = "''CREATE TABLE t (a int); INSERT INTO t VALUES (1)''"
  let ?p2 = "\<lparr>stmts = [\<lparr>stmt = OtherStmt ''CreateStmt''\<rparr>, \<lparr>stmt = InsertStmt\<rparr>]\<rparr>"
  let ?run1 = "query sample_engine ''SELECT 1 as test_value'' PUndefined None connected_pool"
  let ?run2 = "query sample_engine ?sql2 PUndefined None connected_pool"
  have h1: "connection connected_pool = Some 0"
    by (simp add: connected_pool_def)
  have h2: "parseQuerySync sample_engine ''SELECT 1 as test_value'' = Inr ?p"
    by (simp add: sample_engine_def sample_parse_def)
  have h3: "\<not> 1 < length (stmts ?p)"
    by simp
  have h4: "fst (PGlite_query sample_engine 0 ''SELECT 1 as test_value'' (resolve_queryParams PUndefined)
          (world connected_pool)) = Inr select_result"
    by (simp add: sample_engine_def)
  have h5: "get_prop select_result ''affectedRows'' = JNum (Finite 0)"
    by (simp add: select_result_def get_prop_def)
  from h3 h4 have single: "(1 < length (stmts ?p) \<and>
        (\<exists>rs. fst (PGlite_exec sample_engine 0 ''SELECT 1 as test_value'' (world connected_pool)) = Inr rs \<and>
           select_result = first_result rs)) \<or>
      (\<not> 1 < length (stmts ?p) \<and>
        fst (PGlite_query sample_engine 0 ''SELECT 1 as test_value'' (resolve_queryParams PUndefined)
          (world connected_pool)) = Inr select_result)"
    by blast
  have t1: "throws_opt sample_engine
      (if 1 < length (stmts ?p) then None else resolve_queryCb PUndefined None) JNull select_result = None"
    by (simp add: resolve_queryCb_def)
  note run1 = query_result_shape [OF h1 h2 single, of None]
  from run1 [THEN conjunct1, rule_format, OF t1]
  obtain v1 where v1: "fst ?run1 = Inr v1"
    by blast
  from run1 [THEN conjunct2, rule_format, OF v1] v1 h5
  have c1: "get_prop (projr (fst ?run1)) ''rowCount'' = JNum (Finite 0)"
    by (simp add: nullish_def)
  have k2: "parseQuerySync sample_engine ?sql2 = Inr ?p2"
    by (simp add: sample_engine_def sample_parse_def)
  have k4: "fst (PGlite_exec sample_engine 0 ?sql2 (world connected_pool)) = Inr [ddl_result, insert_result]"
    by (simp add: sample_engine_def)
  have k5: "nullish (get_prop ddl_result ''affectedRows'')"
    by (simp add: ddl_result_def get_prop_def nullish_def)
  have "ddl_result = first_result [ddl_result, insert_result]"
    by (simp add: first_result_def)
  with k4 have multi: "(1 < length (stmts ?p2) \<and>
        (\<exists>rs. fst (PGlite_exec sample_engine 0 ?sql2 (world connected_pool)) = Inr rs \<and>
           ddl_result = first_result rs)) \<or>
      (\<not> 1 < length (stmts ?p2) \<and>
        fst (PGlite_query sample_engine 0 ?sql2 (resolve_queryParams PUndefined)
          (world connected_pool)) = Inr ddl_result)"
    by simp
  have t2: "throws_opt sample_engine
      (if 1 < length (stmts ?p2) then None else resolve_queryCb PUndefined None) JNull ddl_result = None"
    by simp
  note run2 = query_result_shape [OF h1 k2 multi, of None]
  from run2 [THEN conjunct1, rule_format, OF t2]
  obtain v2 where v2: "fst ?run2 = Inr v2"
    by blast
  from run2 [THEN conjunct2, rule_format, OF v2] v2 k5
  have c2: "get_prop (projr (fst ?run2)) ''rowCount'' = JNull"
    by simp
  from h1 h2 h3 h4 h5 c1 k2 k4 k5 c2 show ?thesis
    by blast
qed







end
